theory Spec2Isabelle
  imports Main "HOL-Library.Word"
begin

section \<open>JavaScript values\<close>

text \<open>
  A JavaScript string is a sequence of UTF-16 code units, and \<open>.length\<close> counts code
  units. String literals of the sources are ASCII and are written through \<open>js\<close>.
\<close>

type_synonym jsstring = "16 word list"

definition js :: "string \<Rightarrow> jsstring" where
  "js s = map of_char s"

text \<open>Truthiness of a string (\<open>if (!newTag)\<close>, \<open>{#if newTag}\<close>): only \<open>''\<close> is falsy.\<close>

definition truthy_string :: "jsstring \<Rightarrow> bool" where
  "truthy_string s = (s \<noteq> [])"

text \<open>
  Truthiness of a value that is a string or \<open>undefined\<close> (\<open>{#if $message}\<close>).
\<close>

fun truthy_opt_string :: "jsstring option \<Rightarrow> bool" where
  "truthy_opt_string None = False"
| "truthy_opt_string (Some s) = truthy_string s"

text \<open>
  An error entry is an array of messages or \<open>undefined\<close>, as in the validation object
  printed by the tutorial (\<open>errors: { email: [ 'Invalid email' ] }\<close>). Every array is
  truthy, the empty one too.
\<close>

fun truthy_opt_array :: "jsstring list option \<Rightarrow> bool" where
  "truthy_opt_array None = False"
| "truthy_opt_array (Some e) = True"

text \<open>\<open>Array.prototype.toString\<close>: the elements joined by commas.\<close>

fun array_to_string :: "jsstring list \<Rightarrow> jsstring" where
  "array_to_string [] = []"
| "array_to_string [m] = m"
| "array_to_string (m # ms) = m @ js '','' @ array_to_string ms"

text \<open>
  The values that reach an attribute: \<open>null\<close> or \<open>undefined\<close>, a boolean, a number
  (whole numbers only here), a string, or an array of strings.
\<close>

datatype jsvalue = JNull | JBool bool | JNum int | JStr jsstring | JArray "jsstring list"

fun string_of_nat :: "nat \<Rightarrow> jsstring" where
  "string_of_nat n =
     (if n < 10 then [of_nat (48 + n)]
      else string_of_nat (n div 10) @ [of_nat (48 + n mod 10)])"

declare string_of_nat.simps [simp del]

text \<open>\<open>String(value)\<close>, as a template literal or \<open>+\<close> with a string applies it.\<close>

fun to_string :: "jsvalue \<Rightarrow> jsstring" where
  "to_string JNull = js ''null''"
| "to_string (JBool b) = (if b then js ''true'' else js ''false'')"
| "to_string (JNum n) = (if n < 0 then js ''-'' @ string_of_nat (nat (- n)) else string_of_nat (nat n))"
| "to_string (JStr s) = s"
| "to_string (JArray a) = array_to_string a"

fun truthy :: "jsvalue \<Rightarrow> bool" where
  "truthy JNull = False"
| "truthy (JBool b) = b"
| "truthy (JNum n) = (n \<noteq> 0)"
| "truthy (JStr s) = truthy_string s"
| "truthy (JArray a) = True"

text \<open>An array or \<open>undefined\<close>, as a value.\<close>

fun opt_array :: "jsstring list option \<Rightarrow> jsvalue" where
  "opt_array None = JNull"
| "opt_array (Some a) = JArray a"

text \<open>
  An object as the list of its properties, in insertion order. Assigning to a property
  that exists keeps its place; \<open>Object.assign(target, source)\<close> assigns the properties of
  the source in order, so a later source overrides an earlier one.
\<close>

type_synonym props = "(string \<times> jsvalue) list"

fun set_prop :: "string \<Rightarrow> jsvalue \<Rightarrow> props \<Rightarrow> props" where
  "set_prop k v [] = [(k, v)]"
| "set_prop k v ((k', v') # ps) = (if k = k' then (k, v) # ps else (k', v') # set_prop k v ps)"

definition assign :: "props \<Rightarrow> props \<Rightarrow> props" where
  "assign target source = fold (\<lambda>(k, v). set_prop k v) source target"

section \<open>The server side of the tutorial (+page.server.ts)\<close>

text \<open>
  The Zod schema of the tutorial:
  \<^verbatim>\<open>z.object({ name: z.string().default('Hello world!'), email: z.string().email() })\<close>
\<close>

datatype zod =
    ZString
  | ZDefault zod jsstring
  | ZEmail zod
  | ZObject "(string \<times> zod) list"

definition schema :: zod where
  "schema = ZObject [(''name'', ZDefault ZString (js ''Hello world!'')),
                     (''email'', ZEmail ZString)]"

text \<open>
  The validation object returned by \<open>superValidate\<close>. The handlers read its \<open>valid\<close>
  flag only; the other properties (\<open>errors\<close>, \<open>data\<close>, \<open>empty\<close>, \<open>message\<close>,
  \<open>constraints\<close>) live in the extension of the record.
\<close>

record validation =
  valid :: bool

text \<open>The object \<open>{ form }\<close> that load functions and form actions return.\<close>

record 'v page_data =
  form :: 'v

text \<open>
  What a handler hands back to the framework: a plain object, or the \<open>ActionFailure\<close>
  built by \<open>fail(status, data)\<close>.
\<close>

datatype 'a handler_result =
    Return 'a
  | ActionFailure nat 'a

definition fail :: "nat \<Rightarrow> 'a \<Rightarrow> 'a handler_result" where
  "fail status d = ActionFailure status d"

text \<open>
  \<open>superValidate\<close> belongs to the library, so the handlers take it as a parameter
  \<open>sv\<close>: from the request event and the schema to a validation object.
  \<^verbatim>\<open>
  export const load = (async (event) => {
    const form = await superValidate(event, schema);
    return { form };
  })
  \<close>
\<close>

definition load ::
  "('ev \<Rightarrow> zod \<Rightarrow> 'a validation_scheme) \<Rightarrow> 'ev \<Rightarrow> 'a validation_scheme page_data handler_result"
where
  "load sv event = (let form = sv event schema in Return \<lparr>form = form\<rparr>)"

text \<open>
  The default form action. \<open>console.log('POST', form)\<close> is the first component of the
  result: the list of objects written to the console.
  \<^verbatim>\<open>
  default: async (event) => {
    const form = await superValidate(event, schema);
    console.log('POST', form);
    if (!form.valid) {
      return fail(400, { form });
    }
    return { form };
  }
  \<close>
\<close>

definition actions_default ::
  "('ev \<Rightarrow> zod \<Rightarrow> 'a validation_scheme) \<Rightarrow> 'ev
    \<Rightarrow> 'a validation_scheme list \<times> 'a validation_scheme page_data handler_result"
where
  "actions_default sv event =
     (let form = sv event schema;
          console = [form]
      in if \<not> valid form then (console, fail 400 \<lparr>form = form\<rparr>)
         else (console, Return \<lparr>form = form\<rparr>))"

section \<open>The client component (concepts/client-validation/Form.svelte)\<close>

subsection \<open>The options passed to superForm\<close>

text \<open>
  \<^verbatim>\<open>
  validators: {
    tags: (tag) => tag.length < 2 ? 'Tag must be at least 2 characters' : null
  },
  defaultValidator: 'clear'
  \<close>
  The callback returns a message or \<open>null\<close> (\<open>None\<close>).
\<close>

definition validators_tags :: "jsstring \<Rightarrow> jsstring option" where
  "validators_tags tag =
     (if length tag < 2 then Some (js ''Tag must be at least 2 characters'') else None)"

record superForm_options =
  validators :: "(string \<times> (jsstring \<Rightarrow> jsstring option)) list"
  defaultValidator :: string

definition options :: superForm_options where
  "options = \<lparr>validators = [(''tags'', validators_tags)], defaultValidator = ''clear''\<rparr>"

subsection \<open>The stores returned by superForm\<close>

text \<open>
  \<^verbatim>\<open>const { form, errors, enhance, message, constraints } = superForm(data.form, ...)\<close>
  \<open>form\<close>, \<open>errors\<close>, \<open>constraints\<close> and \<open>message\<close> are stores, read in the markup as
  \<open>$form\<close>, \<open>$errors\<close>, \<open>$constraints\<close> and \<open>$message\<close>; \<open>enhance\<close> is an action, placed
  on the form element with \<open>use:enhance\<close>.
\<close>

record ('f, 'e, 'c) superForm =
  form_store :: 'f
  errors_store :: 'e
  constraints_store :: 'c
  message_store :: "jsstring option"

text \<open>An object with the one property \<open>tags\<close>: \<open>$form\<close> and \<open>$errors\<close> of Form.svelte.\<close>

record 'a with_tags =
  tags :: 'a

text \<open>
  \<open>$form.tags\<close> is an array of strings. \<open>$errors.tags\<close> may be missing; when present
  it maps an index to the messages of that tag.
\<close>

type_synonym tags_form = "jsstring list with_tags"
type_synonym tags_errors = "(nat \<rightharpoonup> jsstring list) option with_tags"

text \<open>
  \<open>$constraints.tags\<close>, when present, is an object of HTML validation constraints, as in
  the validation object printed by the tutorial
  (\<open>constraints: { name: { required: true } }\<close>).
\<close>

type_synonym tags_constraints = "props option with_tags"

text \<open>\<open>obj?.[i]\<close>: \<open>undefined\<close> when \<open>obj\<close> is missing, the entry at \<open>i\<close> otherwise.\<close>

fun opt_index :: "(nat \<rightharpoonup> 'a) option \<Rightarrow> nat \<Rightarrow> 'a option" where
  "opt_index None i = None"
| "opt_index (Some m) i = m i"

subsection \<open>The state of the component and its event loop\<close>

text \<open>
  What \<open>addTag\<close> leaves behind for later: its own continuation after \<open>await tick()\<close>
  (a microtask), and the callback \<open>() => (newTag = '')\<close> given to \<open>setTimeout\<close>.
\<close>

datatype task = AddTag_continuation | Reset_newTag

record Form = "(tags_form, tags_errors, tags_constraints) superForm" +
  newTag :: jsstring
  pathname :: jsstring
  microtasks :: "task list"
  timers :: "task list"

text \<open>
  The component when it is created:
  \<^verbatim>\<open>const { form, errors, enhance, message, constraints } = superForm(data.form, ...)\<close>
  takes the four stores out of the object that \<open>superForm\<close> returns, whatever else that
  object holds (the \<open>enhance\<close> action and the rest of the library's interface are in the
  extension of the record); \<open>let newTag = ''\<close>; nothing is pending.
\<close>

definition Form_init ::
  "(tags_form, tags_errors, tags_constraints, 'z) superForm_scheme \<Rightarrow> jsstring \<Rightarrow> Form"
where
  "Form_init st path =
     \<lparr>form_store = form_store st, errors_store = errors_store st,
      constraints_store = constraints_store st, message_store = message_store st,
      newTag = [], pathname = path, microtasks = [], timers = []\<rparr>"

text \<open>
  \<^verbatim>\<open>
  async function addTag() {
    if (!newTag) return;
    $form.tags = [...$form.tags, newTag];
    await tick();
    setTimeout(() => (newTag = ''), 1);
  }
  \<close>
  \<open>addTag\<close> is the part that runs at the call, up to the \<open>await\<close>, where the rest of the
  body is queued as a microtask; \<open>run_task\<close> runs the two deferred parts.
\<close>

definition addTag :: "Form \<Rightarrow> Form" where
  "addTag s =
     (if \<not> truthy_string (newTag s) then s
      else s\<lparr>form_store := (form_store s)\<lparr>tags := tags (form_store s) @ [newTag s]\<rparr>,
             microtasks := microtasks s @ [AddTag_continuation]\<rparr>)"

fun run_task :: "task \<Rightarrow> Form \<Rightarrow> Form" where
  "run_task AddTag_continuation s = s\<lparr>timers := timers s @ [Reset_newTag]\<rparr>"
| "run_task Reset_newTag s = s\<lparr>newTag := []\<rparr>"

text \<open>
  The events of the component: \<open>on:change\<close> of the new-tag input calls \<open>addTag()\<close>;
  the event loop runs the oldest microtask, or fires the oldest timer (all timers have the
  same delay); \<open>bind:value={newTag}\<close> writes what the user types into \<open>newTag\<close>.
\<close>

datatype event = Change | Microtask | Timeout | Input jsstring

fun step :: "event \<Rightarrow> Form \<Rightarrow> Form" where
  "step Change s = addTag s"
| "step Microtask s =
     (case microtasks s of [] \<Rightarrow> s | t # ts \<Rightarrow> run_task t (s\<lparr>microtasks := ts\<rparr>))"
| "step Timeout s =
     (case timers s of [] \<Rightarrow> s | t # ts \<Rightarrow> run_task t (s\<lparr>timers := ts\<rparr>))"
| "step (Input v) s = s\<lparr>newTag := v\<rparr>"

definition run :: "event list \<Rightarrow> Form \<Rightarrow> Form" where
  "run es s = fold step es s"

definition idle :: "Form \<Rightarrow> bool" where
  "idle s = (microtasks s = [] \<and> timers s = [])"

subsection \<open>The markup\<close>

text \<open>
  A rendered node: a text, an element with its attributes, its directives and its
  children, or the \<open>Debug\<close> component with its two props. A directive is a binding
  (\<open>bind:value\<close> with the value it shows, which is a property of the element and not an
  attribute; \<open>bind:this\<close> with the variable), an event handler or an action.
\<close>

datatype handler = Call_addTag | Focus_newTagEl

datatype directive =
    Bind_value jsstring
  | Bind_this string
  | On string handler
  | Use string

datatype node =
    Text jsstring
  | Element string "(string \<times> jsstring) list" "directive list" "node list"
  | Debug bool tags_form

text \<open>
  A dynamic attribute \<open>name={value}\<close>: Svelte leaves the attribute out when the value
  is \<open>null\<close> or \<open>undefined\<close>, and sets it to the value as a string otherwise.
\<close>

fun attr :: "string \<Rightarrow> jsstring option \<Rightarrow> (string \<times> jsstring) list" where
  "attr n None = []"
| "attr n (Some v) = [(n, v)]"

text \<open>A text \<open>{value}\<close>: \<open>undefined\<close> renders as the empty text.\<close>

fun text_of :: "jsstring option \<Rightarrow> jsstring" where
  "text_of None = []"
| "text_of (Some v) = v"

text \<open>\<open>getAttribute\<close> of a node.\<close>

fun attribute :: "string \<Rightarrow> node \<Rightarrow> jsstring option" where
  "attribute n (Element t as ds cs) = map_of as n"
| "attribute n _ = None"

fun is_element :: "string \<Rightarrow> node \<Rightarrow> bool" where
  "is_element t (Element t' as ds cs) = (t = t')"
| "is_element t _ = False"

text \<open>
  The body of \<open>{#each $form.tags as _, i}\<close>:
  \<^verbatim>\<open>
  <input class="input" type="text" name="tags"
    bind:value={$form.tags[i]} data-invalid={$errors.tags?.[i]} />
  {#if $errors.tags?.[i]}<span class="text-red-500">{$errors.tags[i]}</span>{/if}
  \<close>
  Inside the \<open>#if\<close>, \<open>$errors.tags\<close> is present, so \<open>$errors.tags[i]\<close> is the entry that
  \<open>$errors.tags?.[i]\<close> reads.
\<close>

definition each_tag :: "Form \<Rightarrow> nat \<Rightarrow> node list" where
  "each_tag s i =
     Element ''input''
       ([(''class'', js ''input''), (''type'', js ''text''), (''name'', js ''tags'')]
        @ attr ''data-invalid''
            (map_option array_to_string (opt_index (tags (errors_store s)) i)))
       [Bind_value (tags (form_store s) ! i)] []
     # (if truthy_opt_array (opt_index (tags (errors_store s)) i)
        then [Element ''span'' [(''class'', js ''text-red-500'')] []
                [Text (text_of
                   (map_option array_to_string (opt_index (tags (errors_store s)) i)))]]
        else [])"

definition each_block :: "Form \<Rightarrow> node list" where
  "each_block s = concat (map (each_tag s) [0..<length (tags (form_store s))])"

text \<open>The whole markup of Form.svelte, in the order of the file.\<close>

definition Form_markup :: "Form \<Rightarrow> node list" where
  "Form_markup s =
     [Debug True (form_store s),
      Element ''form''
        [(''method'', js ''POST''), (''action'', pathname s),
         (''class'',
          js ''p-5 border-dashed bg-slate-900 border-2 border-primary-900 rounded-xl space-y-4'')]
        [Use ''enhance'']
        ((if truthy_opt_string (message_store s)
          then [Element ''h3'' [(''class'', js ''rounded p-2 bg-green-700'')] []
                  [Text (text_of (message_store s))]]
          else [])
         @ [Element ''label'' [(''for'', js ''tags''), (''class'', js ''label'')] []
              [Element ''span'' [] [] [Text (js ''Tags'')]]]
         @ each_block s
         @ [Element ''input''
              [(''class'', js ''input''), (''type'', js ''text''),
               (''placeholder'', js ''Add new tag...'')]
              [Bind_value (newTag s), Bind_this ''newTagEl'', On ''change'' Call_addTag] []]
         @ (if truthy_string (newTag s)
            then [Element ''input''
                    [(''class'', js ''input''), (''type'', js ''text''),
                     (''placeholder'', js ''Add new tag...'')]
                    [On ''focus'' Focus_newTagEl] []]
            else [])
         @ [Element ''div'' [] []
              [Element ''button''
                 [(''type'', js ''submit''), (''class'', js ''btn variant-filled'')] []
                 [Text (js ''Submit'')]]])]"

section \<open>The client page of the tutorial (+page.svelte, "Displaying errors")\<close>

text \<open>
  The form has the fields \<open>name\<close> and \<open>email\<close>. An entry of \<open>$errors\<close> is an array of
  messages or missing; an entry of \<open>$constraints\<close> is an object of HTML validation
  constraints or missing.
\<close>

record 'a name_email =
  name :: 'a
  email :: 'a

text \<open>
  \<^verbatim>\<open>const { form, errors, constraints } = superForm(data.form);\<close>
  The component holds these three stores and nothing else of what \<open>superForm\<close> returns:
  it takes no \<open>message\<close>.
\<close>

record page =
  page_form :: "jsstring name_email"
  page_errors :: "jsstring list option name_email"
  page_constraints :: "props option name_email"

definition page_init ::
  "(jsstring name_email, jsstring list option name_email, props option name_email, 'z)
     superForm_scheme \<Rightarrow> page"
where
  "page_init st =
     \<lparr>page_form = form_store st, page_errors = errors_store st,
      page_constraints = constraints_store st\<rparr>"

subsection \<open>Elements with a spread\<close>

text \<open>
  An element that has a \<open>{...object}\<close> gets all its attributes through Svelte's
  \<open>spread(args, { classes })\<close>: the attributes in the order of the markup, each as an
  object, merged by \<open>Object.assign\<close>, so that a property of the spread object overrides an
  attribute written before it; a missing object contributes nothing. The class that scopes
  the component's styles is added to \<open>class\<close>. Then \<open>true\<close> gives the bare attribute
  (the empty value), an attribute of the HTML boolean attributes is bare when its value is
  truthy and left out otherwise, and any other attribute is left out when \<open>null\<close> or
  \<open>undefined\<close> and set to the value as a string otherwise.
\<close>

fun spread_object :: "props option \<Rightarrow> props" where
  "spread_object None = []"
| "spread_object (Some ps) = ps"

definition boolean_attributes :: "string list" where
  "boolean_attributes =
     [''allowfullscreen'', ''allowpaymentrequest'', ''async'', ''autofocus'', ''autoplay'',
      ''checked'', ''controls'', ''default'', ''defer'', ''disabled'', ''formnovalidate'',
      ''hidden'', ''inert'', ''ismap'', ''itemscope'', ''loop'', ''multiple'', ''muted'',
      ''nomodule'', ''novalidate'', ''open'', ''playsinline'', ''readonly'', ''required'',
      ''reversed'', ''selected'']"

definition to_lower :: "string \<Rightarrow> string" where
  "to_lower n =
     map (\<lambda>c. if 65 \<le> (of_char c :: nat) \<and> (of_char c :: nat) \<le> 90
               then char_of (of_char c + 32 :: nat) else c) n"

definition add_classes :: "jsstring option \<Rightarrow> props \<Rightarrow> props" where
  "add_classes classes ps =
     (case classes of
        None \<Rightarrow> ps
      | Some c \<Rightarrow>
          (case map_of ps ''class'' of
             None \<Rightarrow> set_prop ''class'' (JStr c) ps
           | Some JNull \<Rightarrow> set_prop ''class'' (JStr c) ps
           | Some v \<Rightarrow> set_prop ''class'' (JStr (to_string v @ js '' '' @ c)) ps))"

definition render_attribute :: "string \<times> jsvalue \<Rightarrow> (string \<times> jsstring) list" where
  "render_attribute a =
     (case a of (n, v) \<Rightarrow>
        if v = JBool True then [(n, [])]
        else if to_lower n \<in> set boolean_attributes then (if truthy v then [(n, [])] else [])
        else if v \<noteq> JNull then [(n, to_string v)]
        else [])"

definition spread :: "props list \<Rightarrow> jsstring option \<Rightarrow> (string \<times> jsstring) list" where
  "spread args classes =
     concat (map render_attribute
       (add_classes classes (fold (\<lambda>source target. assign target source) args [])))"

subsection \<open>The markup and the style\<close>

text \<open>
  \<^verbatim>\<open>
  <form method="POST">
    <label for="name">Name</label>
    <input type="text" name="name" data-invalid={$errors.name}
      bind:value={$form.name} {...$constraints.name} />
    {#if $errors.name}<span class="invalid">{$errors.name}</span>{/if}
    <label for="email">E-mail</label>
    <input type="email" name="email" data-invalid={$errors.email}
      bind:value={$form.email} {...$constraints.email} />
    {#if $errors.email}<span class="invalid">{$errors.email}</span>{/if}
    <div><button>Submit</button></div>
  </form>
  <style>
    .invalid { color: red; }
  </style>
  \<close>
  The style is scoped: the compiler derives a class from the style sheet (the parameter
  \<open>scope\<close>, of the form \<open>svelte-\<close> and a hash), emits the rule for \<open>.invalid\<close> with that
  class, and adds the class to every element that \<open>.invalid\<close> may select: the two spans,
  and the two inputs, whose \<open>class\<close> can come from the spread.
\<close>

definition page_css :: "jsstring \<Rightarrow> (jsstring \<times> (string \<times> jsstring) list) list" where
  "page_css scope = [(js ''.invalid.'' @ scope, [(''color'', js ''red'')])]"

definition page_markup :: "jsstring \<Rightarrow> page \<Rightarrow> node list" where
  "page_markup scope s =
     [Element ''form'' [(''method'', js ''POST'')] []
        ([Element ''label'' [(''for'', js ''name'')] [] [Text (js ''Name'')],
          Element ''input''
            (spread
               [[(''type'', JStr (js ''text''))], [(''name'', JStr (js ''name''))],
                [(''data-invalid'', opt_array (name (page_errors s)))],
                spread_object (name (page_constraints s))]
               (Some scope))
            [Bind_value (name (page_form s))] []]
         @ (if truthy_opt_array (name (page_errors s))
            then [Element ''span'' [(''class'', js ''invalid '' @ scope)] []
                    [Text (text_of (map_option array_to_string (name (page_errors s))))]]
            else [])
         @ [Element ''label'' [(''for'', js ''email'')] [] [Text (js ''E-mail'')],
            Element ''input''
              (spread
                 [[(''type'', JStr (js ''email''))], [(''name'', JStr (js ''email''))],
                  [(''data-invalid'', opt_array (email (page_errors s)))],
                  spread_object (email (page_constraints s))]
                 (Some scope))
              [Bind_value (email (page_form s))] []]
         @ (if truthy_opt_array (email (page_errors s))
            then [Element ''span'' [(''class'', js ''invalid '' @ scope)] []
                    [Text (text_of (map_option array_to_string (email (page_errors s))))]]
            else [])
         @ [Element ''div'' [] [] [Element ''button'' [] [] [Text (js ''Submit'')]]])]"

section \<open>The server handlers\<close>

text \<open>
  C6. The load handler returns \<open>{ form }\<close>, where \<open>form\<close> is what \<open>superValidate\<close>
  gives for the event and the schema, for every event; it never returns a failure.
\<close>

theorem load_returns_form:
  "load sv event = Return \<lparr>form = sv event schema\<rparr>
   \<and> (\<forall>status d. load sv event \<noteq> ActionFailure status d)"
  by (simp add: load_def)

text \<open>
  C1. The default form action returns failure with status 400 carrying \<open>{ form }\<close> when
  the validation object has \<open>valid\<close> false, and \<open>{ form }\<close> otherwise; these are its only
  two outcomes, and in both it has logged the validation object once.
\<close>

theorem actions_default_outcomes:
  "actions_default sv event =
     ([sv event schema],
      if valid (sv event schema) then Return \<lparr>form = sv event schema\<rparr>
      else ActionFailure 400 \<lparr>form = sv event schema\<rparr>)"
  by (simp add: actions_default_def fail_def Let_def)

section \<open>The tag validator\<close>

text \<open>
  C2. The validators object has the single entry \<open>tags\<close>; that callback returns the
  message \<open>Tag must be at least 2 characters\<close> exactly for the strings of length below 2,
  and \<open>null\<close> exactly for the strings of length 2 or more.
\<close>

theorem validators_tags_spec:
  "map fst (validators options) = [''tags'']
   \<and> map_of (validators options) ''tags'' = Some validators_tags
   \<and> (validators_tags tag = Some (js ''Tag must be at least 2 characters'')) = (length tag < 2)
   \<and> (validators_tags tag = None) = (2 \<le> length tag)"
  by (auto simp add: options_def validators_tags_def)

section \<open>The tag-add handler\<close>

lemma addTag_tags:
  "tags (form_store (addTag s)) =
     (if newTag s = [] then tags (form_store s) else tags (form_store s) @ [newTag s])"
  by (simp add: addTag_def truthy_string_def)

lemma run_task_tags: "tags (form_store (run_task t s)) = tags (form_store s)"
  by (cases t) simp_all

lemma step_tags:
  "tags (form_store (step e s)) =
     (if e = Change \<and> newTag s \<noteq> [] then tags (form_store s) @ [newTag s]
      else tags (form_store s))"
  by (cases e) (simp_all add: addTag_tags run_task_tags split: list.splits)

text \<open>
  C7. Called with a non-empty \<open>newTag\<close>, \<open>addTag\<close> appends exactly that value at the end
  of \<open>$form.tags\<close>: the list grows by one, every tag that was there keeps its index and
  value, and the deferred parts of the call leave the list as it is.
\<close>

theorem addTag_appends:
  "newTag s \<noteq> [] \<Longrightarrow>
     tags (form_store (addTag s)) = tags (form_store s) @ [newTag s]
   \<and> length (tags (form_store (addTag s))) = Suc (length (tags (form_store s)))
   \<and> (\<forall>i < length (tags (form_store s)).
         tags (form_store (addTag s)) ! i = tags (form_store s) ! i)
   \<and> tags (form_store (addTag s)) ! length (tags (form_store s)) = newTag s
   \<and> tags (form_store (run [Change, Microtask, Timeout] s)) = tags (form_store s) @ [newTag s]"
  by (simp add: run_def step_tags addTag_tags nth_append del: step.simps)

theorem addTag_appends_witness:
  "newTag (run [Input (js ''ab'')]
       (Form_init \<lparr>form_store = \<lparr>tags = [js ''x1'']\<rparr>, errors_store = \<lparr>tags = None\<rparr>,
          constraints_store = \<lparr>tags = None\<rparr>, message_store = None\<rparr> (js ''/''))) \<noteq> []
   \<and> tags (form_store (addTag (run [Input (js ''ab'')]
       (Form_init \<lparr>form_store = \<lparr>tags = [js ''x1'']\<rparr>, errors_store = \<lparr>tags = None\<rparr>,
          constraints_store = \<lparr>tags = None\<rparr>, message_store = None\<rparr> (js ''/''))))) = [js ''x1'', js ''ab'']"
  using addTag_appends [of "run [Input (js ''ab'')]
       (Form_init \<lparr>form_store = \<lparr>tags = [js ''x1'']\<rparr>, errors_store = \<lparr>tags = None\<rparr>,
          constraints_store = \<lparr>tags = None\<rparr>, message_store = None\<rparr> (js ''/''))"]
  by (simp add: run_def Form_init_def js_def)

text \<open>
  C8. Called with \<open>newTag\<close> empty, \<open>addTag\<close> returns at once: the whole state, \<open>$form.tags\<close>
  and \<open>newTag\<close> included, is unchanged and nothing is queued.
\<close>

theorem addTag_empty:
  "newTag s = [] \<Longrightarrow> addTag s = s \<and> run [Change] s = s"
  by (simp add: addTag_def truthy_string_def run_def)

theorem addTag_empty_witness:
  "newTag (Form_init \<lparr>form_store = \<lparr>tags = [js ''x1'']\<rparr>, errors_store = \<lparr>tags = None\<rparr>,
          constraints_store = \<lparr>tags = None\<rparr>, message_store = None\<rparr> (js ''/'')) = []
   \<and> addTag (Form_init \<lparr>form_store = \<lparr>tags = [js ''x1'']\<rparr>, errors_store = \<lparr>tags = None\<rparr>,
          constraints_store = \<lparr>tags = None\<rparr>, message_store = None\<rparr> (js ''/'')) =
       (Form_init \<lparr>form_store = \<lparr>tags = [js ''x1'']\<rparr>, errors_store = \<lparr>tags = None\<rparr>,
          constraints_store = \<lparr>tags = None\<rparr>, message_store = None\<rparr> (js ''/''))"
  using addTag_empty [of "(Form_init \<lparr>form_store = \<lparr>tags = [js ''x1'']\<rparr>, errors_store = \<lparr>tags = None\<rparr>,
          constraints_store = \<lparr>tags = None\<rparr>, message_store = None\<rparr> (js ''/''))"]
  by (simp add: Form_init_def)

lemma run_task_pending:
  "length (microtasks (run_task t s)) + length (timers (run_task t s))
    \<le> Suc (length (microtasks s) + length (timers s))"
  by (cases t) simp_all

lemma step_pending:
  "length (tags (form_store s)) + length (microtasks (step e s)) + length (timers (step e s))
    \<le> length (tags (form_store (step e s))) + length (microtasks s) + length (timers s)"
proof (cases e)
  case Change
  then show ?thesis by (simp add: addTag_def)
next
  case Microtask
  show ?thesis
  proof (cases "microtasks s")
    case Nil
    with Microtask show ?thesis by simp
  next
    case (Cons t ts)
    with Microtask run_task_pending [of t "s\<lparr>microtasks := ts\<rparr>"] show ?thesis
      by (simp add: run_task_tags)
  qed
next
  case Timeout
  show ?thesis
  proof (cases "timers s")
    case Nil
    with Timeout show ?thesis by simp
  next
    case (Cons t ts)
    with Timeout run_task_pending [of t "s\<lparr>timers := ts\<rparr>"] show ?thesis
      by (simp add: run_task_tags)
  qed
next
  case (Input v)
  then show ?thesis by simp
qed

text \<open>
  Whatever the events, every deferred part still pending belongs to a tag that is
  already in the list.
\<close>

lemma run_pending:
  "length (tags (form_store s)) + length (microtasks (run es s)) + length (timers (run es s))
    \<le> length (tags (form_store (run es s))) + length (microtasks s) + length (timers s)"
proof (induction es arbitrary: s)
  case Nil
  show ?case by (simp add: run_def)
next
  case (Cons e es)
  have "run (e # es) s = run es (step e s)" by (simp add: run_def)
  with Cons [of "step e s"] step_pending [of s e] show ?case by simp
qed

text \<open>
  C9. From a state with nothing pending and \<open>newTag\<close> non-empty: the call appends the tag
  and leaves \<open>newTag\<close> alone; the continuation after \<open>await tick()\<close> only sets the timer;
  the timer then resets \<open>newTag\<close> to the empty string, with the tag in the list since the
  call. In every run, the pending deferred parts are covered by tags already appended.
\<close>

theorem addTag_reset_after_append:
  "idle s \<Longrightarrow> newTag s \<noteq> [] \<Longrightarrow>
     newTag (run [Change] s) = newTag s
   \<and> tags (form_store (run [Change] s)) = tags (form_store s) @ [newTag s]
   \<and> newTag (run [Change, Microtask] s) = newTag s
   \<and> timers (run [Change, Microtask] s) = [Reset_newTag]
   \<and> tags (form_store (run [Change, Microtask] s)) = tags (form_store s) @ [newTag s]
   \<and> newTag (run [Change, Microtask, Timeout] s) = []
   \<and> tags (form_store (run [Change, Microtask, Timeout] s)) = tags (form_store s) @ [newTag s]
   \<and> idle (run [Change, Microtask, Timeout] s)
   \<and> (\<forall>es. length (tags (form_store s)) + length (microtasks (run es s))
              + length (timers (run es s)) \<le> length (tags (form_store (run es s))))"
proof -
  assume i: "idle s" and n: "newTag s \<noteq> []"
  have "\<forall>es. length (tags (form_store s)) + length (microtasks (run es s))
              + length (timers (run es s)) \<le> length (tags (form_store (run es s)))"
    using i run_pending [of s] by (simp add: idle_def)
  with i n show ?thesis
    by (simp add: run_def idle_def addTag_def truthy_string_def)
qed

theorem addTag_reset_after_append_witness:
  "idle (run [Input (js ''ab'')]
       (Form_init \<lparr>form_store = \<lparr>tags = [js ''x1'']\<rparr>, errors_store = \<lparr>tags = None\<rparr>,
          constraints_store = \<lparr>tags = None\<rparr>, message_store = None\<rparr> (js ''/'')))
   \<and> newTag (run [Input (js ''ab'')]
       (Form_init \<lparr>form_store = \<lparr>tags = [js ''x1'']\<rparr>, errors_store = \<lparr>tags = None\<rparr>,
          constraints_store = \<lparr>tags = None\<rparr>, message_store = None\<rparr> (js ''/''))) \<noteq> []
   \<and> newTag (run [Input (js ''ab''), Change, Microtask]
       (Form_init \<lparr>form_store = \<lparr>tags = [js ''x1'']\<rparr>, errors_store = \<lparr>tags = None\<rparr>,
          constraints_store = \<lparr>tags = None\<rparr>, message_store = None\<rparr> (js ''/''))) = js ''ab''
   \<and> newTag (run [Input (js ''ab''), Change, Microtask, Timeout]
       (Form_init \<lparr>form_store = \<lparr>tags = [js ''x1'']\<rparr>, errors_store = \<lparr>tags = None\<rparr>,
          constraints_store = \<lparr>tags = None\<rparr>, message_store = None\<rparr> (js ''/''))) = []
   \<and> tags (form_store (run [Input (js ''ab''), Change, Microtask, Timeout]
       (Form_init \<lparr>form_store = \<lparr>tags = [js ''x1'']\<rparr>, errors_store = \<lparr>tags = None\<rparr>,
          constraints_store = \<lparr>tags = None\<rparr>, message_store = None\<rparr> (js ''/'')))) = [js ''x1'', js ''ab'']"
  using addTag_reset_after_append [of "run [Input (js ''ab'')]
       (Form_init \<lparr>form_store = \<lparr>tags = [js ''x1'']\<rparr>, errors_store = \<lparr>tags = None\<rparr>,
          constraints_store = \<lparr>tags = None\<rparr>, message_store = None\<rparr> (js ''/''))"]
  by (simp add: run_def Form_init_def idle_def js_def)

lemma step_rapid:
  assumes "e = Change \<or> e = Microtask" "newTag s = t" "t \<noteq> []"
    "set (microtasks s) \<subseteq> {AddTag_continuation}"
  shows "newTag (step e s) = t \<and> set (microtasks (step e s)) \<subseteq> {AddTag_continuation}
    \<and> tags (form_store (step e s)) = tags (form_store s) @ (if e = Change then [t] else [])"
proof (cases "e = Change")
  case True
  with assms show ?thesis by (simp add: addTag_def truthy_string_def)
next
  case False
  with assms have e: "e = Microtask" by simp
  show ?thesis
  proof (cases "microtasks s")
    case Nil
    with e assms show ?thesis by simp
  next
    case (Cons u us)
    with assms have "u = AddTag_continuation" by simp
    with Cons e assms show ?thesis by simp
  qed
qed

lemma run_rapid:
  assumes "set es \<subseteq> {Change, Microtask}" "newTag s = t" "t \<noteq> []"
    "set (microtasks s) \<subseteq> {AddTag_continuation}"
  shows "tags (form_store (run es s)) =
    tags (form_store s) @ replicate (length (filter (\<lambda>e. e = Change) es)) t
    \<and> newTag (run es s) = t"
  using assms
proof (induction es arbitrary: s)
  case Nil
  then show ?case by (simp add: run_def)
next
  case (Cons e es)
  from Cons.prems have e: "e = Change \<or> e = Microtask" by auto
  note st = step_rapid [OF e Cons.prems(2) Cons.prems(3) Cons.prems(4)]
  have r: "run (e # es) s = run es (step e s)" by (simp add: run_def)
  from Cons.prems have "set es \<subseteq> {Change, Microtask}" by simp
  from Cons.IH [OF this _ Cons.prems(3), of "step e s"] st
  have "tags (form_store (run es (step e s))) =
    tags (form_store (step e s)) @ replicate (length (filter (\<lambda>e. e = Change) es)) t
    \<and> newTag (run es (step e s)) = t" by simp
  with st r show ?case by (cases "e = Change") (simp_all add: replicate_app_Cons_same)
qed

text \<open>
  C3, as the claim states it, fails: the handler is not debounced. With \<open>ab\<close> typed into
  a fresh component, one call has the tag in the list at once, before any deferred part
  has run; a second call right after it (only the microtasks run in between, both timers
  still pending) adds a second entry.
\<close>

theorem addTag_debounce_counterexample:
  "tags (form_store (run [Input (js ''ab''), Change]
       (Form_init \<lparr>form_store = \<lparr>tags = []\<rparr>, errors_store = \<lparr>tags = None\<rparr>,
          constraints_store = \<lparr>tags = None\<rparr>, message_store = None\<rparr> (js ''/'')))) = [js ''ab'']
   \<and> tags (form_store (run [Input (js ''ab''), Change, Microtask, Change, Microtask]
       (Form_init \<lparr>form_store = \<lparr>tags = []\<rparr>, errors_store = \<lparr>tags = None\<rparr>,
          constraints_store = \<lparr>tags = None\<rparr>, message_store = None\<rparr> (js ''/'')))) = [js ''ab'', js ''ab'']
   \<and> timers (run [Input (js ''ab''), Change, Microtask, Change, Microtask]
       (Form_init \<lparr>form_store = \<lparr>tags = []\<rparr>, errors_store = \<lparr>tags = None\<rparr>,
          constraints_store = \<lparr>tags = None\<rparr>, message_store = None\<rparr> (js ''/''))) = [Reset_newTag, Reset_newTag]"
  by (simp add: run_def Form_init_def addTag_def truthy_string_def js_def)

text \<open>
  C3, amended. Every call of \<open>addTag\<close> with a non-empty \<open>newTag\<close> appends to \<open>$form.tags\<close>
  at once: after any succession of calls and microtasks from a state with nothing pending
  (no timer has fired, nothing was typed), the list has one new entry per call. Only the
  reset of \<open>newTag\<close> is deferred.
\<close>

theorem addTag_not_debounced:
  "idle s \<Longrightarrow> newTag s \<noteq> [] \<Longrightarrow> set es \<subseteq> {Change, Microtask} \<Longrightarrow>
     tags (form_store (run es s)) =
       tags (form_store s) @ replicate (length (filter (\<lambda>e. e = Change) es)) (newTag s)
   \<and> newTag (run es s) = newTag s"
  using run_rapid [of es s "newTag s"] by (simp add: idle_def)

theorem addTag_not_debounced_witness:
  "idle (run [Input (js ''ab'')]
       (Form_init \<lparr>form_store = \<lparr>tags = []\<rparr>, errors_store = \<lparr>tags = None\<rparr>,
          constraints_store = \<lparr>tags = None\<rparr>, message_store = None\<rparr> (js ''/'')))
   \<and> tags (form_store (run [Change, Microtask, Change] (run [Input (js ''ab'')]
       (Form_init \<lparr>form_store = \<lparr>tags = []\<rparr>, errors_store = \<lparr>tags = None\<rparr>,
          constraints_store = \<lparr>tags = None\<rparr>, message_store = None\<rparr> (js ''/''))))) = [js ''ab'', js ''ab'']"
  using addTag_not_debounced [of "run [Input (js ''ab'')]
       (Form_init \<lparr>form_store = \<lparr>tags = []\<rparr>, errors_store = \<lparr>tags = None\<rparr>,
          constraints_store = \<lparr>tags = None\<rparr>, message_store = None\<rparr> (js ''/''))" "[Change, Microtask, Change]"]
  by (simp add: run_def Form_init_def idle_def js_def)

section \<open>The markup\<close>

lemma map_of_attr: "map_of (attr n v) n = v"
  by (cases v) simp_all

lemma filter_span_each_tag:
  "filter (is_element ''span'') (each_tag s i) =
     (case opt_index (tags (errors_store s)) i of None \<Rightarrow> []
      | Some e \<Rightarrow> [Element ''span'' [(''class'', js ''text-red-500'')] []
                     [Text (array_to_string e)]])"
  by (simp add: each_tag_def split: option.splits)

lemma filter_input_each_tag:
  "map (attribute ''data-invalid'') (filter (is_element ''input'') (each_tag s i)) =
     [map_option array_to_string (opt_index (tags (errors_store s)) i)]"
  by (simp add: each_tag_def map_of_attr)

lemma concat_map_single: "concat (map (\<lambda>i. [f i]) xs) = map f xs"
  by (induction xs) simp_all

lemma concat_map_option:
  "concat (map (\<lambda>i. case g i of None \<Rightarrow> [] | Some e \<Rightarrow> [h e]) xs) = map h (List.map_filter g xs)"
  by (induction xs) (simp_all split: option.splits)

text \<open>
  C5. In the rendered \<open>#each\<close> block, the error spans are those of the indices of
  \<open>$form.tags\<close> that have an entry in \<open>$errors.tags\<close>, in order, each the
  \<open>span\<close> of class \<open>text-red-500\<close> whose text is the entry of its index, and no others;
  and the input of index \<open>i\<close> carries \<open>data-invalid\<close> (with that text) when index \<open>i\<close>
  has an entry, and has no such attribute when it has none.
\<close>

theorem each_block_errors:
  "filter (is_element ''span'') (each_block s) =
     map (\<lambda>e. Element ''span'' [(''class'', js ''text-red-500'')] [] [Text (array_to_string e)])
       (List.map_filter (opt_index (tags (errors_store s))) [0..<length (tags (form_store s))])
   \<and> map (attribute ''data-invalid'') (filter (is_element ''input'') (each_block s)) =
     map (\<lambda>i. map_option array_to_string (opt_index (tags (errors_store s)) i))
       [0..<length (tags (form_store s))]"
proof -
  have "filter (is_element ''span'') (each_block s) =
      concat (map (\<lambda>i. case opt_index (tags (errors_store s)) i of None \<Rightarrow> []
        | Some e \<Rightarrow> [Element ''span'' [(''class'', js ''text-red-500'')] []
                       [Text (array_to_string e)]]) [0..<length (tags (form_store s))])"
    by (simp add: each_block_def filter_concat comp_def filter_span_each_tag)
  then have spans: "filter (is_element ''span'') (each_block s) =
     map (\<lambda>e. Element ''span'' [(''class'', js ''text-red-500'')] [] [Text (array_to_string e)])
       (List.map_filter (opt_index (tags (errors_store s))) [0..<length (tags (form_store s))])"
    by (simp only: concat_map_option)
  have "map (attribute ''data-invalid'') (filter (is_element ''input'') (each_block s)) =
      concat (map (\<lambda>i. [map_option array_to_string (opt_index (tags (errors_store s)) i)])
        [0..<length (tags (form_store s))])"
    by (simp add: each_block_def filter_concat map_concat comp_def filter_input_each_tag)
  also have "\<dots> = map (\<lambda>i. map_option array_to_string (opt_index (tags (errors_store s)) i))
       [0..<length (tags (form_store s))]"
    by (rule concat_map_single)
  finally show ?thesis using spans by simp
qed

section \<open>The stores bound in the markup\<close>

text \<open>
  A component binds a store in its markup when what it renders depends on the value of
  the store. Form.svelte takes \<open>constraints\<close> from \<open>superForm\<close>, but nothing it renders
  depends on it.
\<close>

lemma each_tag_constraints: "each_tag (s\<lparr>constraints_store := c\<rparr>) = each_tag s"
  by (rule ext) (simp add: each_tag_def)

lemma Form_markup_constraints:
  "Form_markup (s\<lparr>constraints_store := c\<rparr>) = Form_markup s"
  by (simp add: Form_markup_def each_block_def each_tag_constraints)

lemma Form_binds_form:
  "\<exists>(st :: (tags_form, tags_errors, tags_constraints) superForm) f p.
     Form_markup (Form_init (st\<lparr>form_store := f\<rparr>) p) \<noteq> Form_markup (Form_init st p)"
proof -
  let ?st = "\<lparr>form_store = \<lparr>tags = []\<rparr>, errors_store = \<lparr>tags = None\<rparr>,
     constraints_store = \<lparr>tags = None\<rparr>, message_store = None\<rparr>
     :: (tags_form, tags_errors, tags_constraints) superForm"
  have "Form_markup (Form_init (?st\<lparr>form_store := \<lparr>tags = [js ''ab'']\<rparr>\<rparr>) (js ''/''))
      \<noteq> Form_markup (Form_init ?st (js ''/''))"
    by (simp add: Form_markup_def Form_init_def)
  then show ?thesis by blast
qed

lemma Form_binds_errors:
  "\<exists>(st :: (tags_form, tags_errors, tags_constraints) superForm) e p.
     Form_markup (Form_init (st\<lparr>errors_store := e\<rparr>) p) \<noteq> Form_markup (Form_init st p)"
proof -
  let ?st = "\<lparr>form_store = \<lparr>tags = [js ''a'']\<rparr>, errors_store = \<lparr>tags = None\<rparr>,
     constraints_store = \<lparr>tags = None\<rparr>, message_store = None\<rparr>
     :: (tags_form, tags_errors, tags_constraints) superForm"
  have "Form_markup (Form_init
          (?st\<lparr>errors_store := \<lparr>tags = Some [0 \<mapsto> [js ''Tag must be at least 2 characters'']]\<rparr>\<rparr>)
          (js ''/''))
      \<noteq> Form_markup (Form_init ?st (js ''/''))"
    by (simp add: Form_markup_def Form_init_def each_block_def each_tag_def)
  then show ?thesis by blast
qed

lemma Form_binds_message:
  "\<exists>(st :: (tags_form, tags_errors, tags_constraints) superForm) m p.
     Form_markup (Form_init (st\<lparr>message_store := m\<rparr>) p) \<noteq> Form_markup (Form_init st p)"
proof -
  let ?st = "\<lparr>form_store = \<lparr>tags = []\<rparr>, errors_store = \<lparr>tags = None\<rparr>,
     constraints_store = \<lparr>tags = None\<rparr>, message_store = None\<rparr>
     :: (tags_form, tags_errors, tags_constraints) superForm"
  have "Form_markup (Form_init (?st\<lparr>message_store := Some (js ''ok'')\<rparr>) (js ''/''))
      \<noteq> Form_markup (Form_init ?st (js ''/''))"
    by (simp add: Form_markup_def Form_init_def truthy_string_def js_def)
  then show ?thesis by blast
qed

lemma page_binds_constraints:
  "\<exists>(st :: (jsstring name_email, jsstring list option name_email, props option name_email)
         superForm) c scope.
     page_markup scope (page_init (st\<lparr>constraints_store := c\<rparr>)) \<noteq> page_markup scope (page_init st)"
proof -
  let ?st = "\<lparr>form_store = \<lparr>name = js ''Hello world!'', email = []\<rparr>,
     errors_store = \<lparr>name = None, email = None\<rparr>,
     constraints_store = \<lparr>name = None, email = None\<rparr>, message_store = None\<rparr>
     :: (jsstring name_email, jsstring list option name_email, props option name_email) superForm"
  have "page_markup (js ''svelte-1'')
          (page_init (?st\<lparr>constraints_store := \<lparr>name = Some [(''required'', JBool True)], email = None\<rparr>\<rparr>))
        \<noteq> page_markup (js ''svelte-1'') (page_init ?st)"
    by (simp add: page_markup_def page_init_def spread_def assign_def add_classes_def
        render_attribute_def)
  then show ?thesis by blast
qed

lemma page_binds_form:
  "\<exists>(st :: (jsstring name_email, jsstring list option name_email, props option name_email)
         superForm) f scope.
     page_markup scope (page_init (st\<lparr>form_store := f\<rparr>)) \<noteq> page_markup scope (page_init st)"
proof -
  let ?st = "\<lparr>form_store = \<lparr>name = js ''Hello world!'', email = []\<rparr>,
     errors_store = \<lparr>name = None, email = None\<rparr>,
     constraints_store = \<lparr>name = None, email = None\<rparr>, message_store = None\<rparr>
     :: (jsstring name_email, jsstring list option name_email, props option name_email) superForm"
  have "page_markup (js ''svelte-1'')
          (page_init (?st\<lparr>form_store := \<lparr>name = js ''x'', email = []\<rparr>\<rparr>))
        \<noteq> page_markup (js ''svelte-1'') (page_init ?st)"
    by (simp add: page_markup_def page_init_def js_def)
  then show ?thesis by blast
qed

lemma page_binds_errors:
  "\<exists>(st :: (jsstring name_email, jsstring list option name_email, props option name_email)
         superForm) e scope.
     page_markup scope (page_init (st\<lparr>errors_store := e\<rparr>)) \<noteq> page_markup scope (page_init st)"
proof -
  let ?st = "\<lparr>form_store = \<lparr>name = js ''Hello world!'', email = []\<rparr>,
     errors_store = \<lparr>name = None, email = None\<rparr>,
     constraints_store = \<lparr>name = None, email = None\<rparr>, message_store = None\<rparr>
     :: (jsstring name_email, jsstring list option name_email, props option name_email) superForm"
  have "page_markup (js ''svelte-1'')
          (page_init (?st\<lparr>errors_store := \<lparr>name = None, email = Some [js ''Invalid email'']\<rparr>\<rparr>))
        \<noteq> page_markup (js ''svelte-1'') (page_init ?st)"
    by (simp add: page_markup_def page_init_def)
  then show ?thesis by blast
qed

text \<open>
  C4. The client components obtain \<open>form\<close>, \<open>errors\<close>, \<open>constraints\<close> and \<open>message\<close>
  from the object that \<open>superForm\<close> returns (Form.svelte all four, the +page.svelte of the
  tutorial the first three), and each of the four is bound in rendered markup: \<open>form\<close> and
  \<open>errors\<close> by both components, \<open>constraints\<close> by +page.svelte, \<open>message\<close> by Form.svelte.
  They are exactly these: what the components render is the same for any two objects
  returned by \<open>superForm\<close> that agree on the four stores, whatever else the objects hold.
\<close>

theorem client_display_contract:
  "form_store (Form_init st p) = form_store st
   \<and> errors_store (Form_init st p) = errors_store st
   \<and> constraints_store (Form_init st p) = constraints_store st
   \<and> message_store (Form_init st p) = message_store st
   \<and> page_form (page_init st') = form_store st'
   \<and> page_errors (page_init st') = errors_store st'
   \<and> page_constraints (page_init st') = constraints_store st'
   \<and> (\<exists>(st :: (tags_form, tags_errors, tags_constraints) superForm) f p.
         Form_markup (Form_init (st\<lparr>form_store := f\<rparr>) p) \<noteq> Form_markup (Form_init st p))
   \<and> (\<exists>(st :: (tags_form, tags_errors, tags_constraints) superForm) e p.
         Form_markup (Form_init (st\<lparr>errors_store := e\<rparr>) p) \<noteq> Form_markup (Form_init st p))
   \<and> (\<exists>(st :: (tags_form, tags_errors, tags_constraints) superForm) m p.
         Form_markup (Form_init (st\<lparr>message_store := m\<rparr>) p) \<noteq> Form_markup (Form_init st p))
   \<and> (\<exists>(st :: (jsstring name_email, jsstring list option name_email, props option name_email)
             superForm) f scope.
         page_markup scope (page_init (st\<lparr>form_store := f\<rparr>))
           \<noteq> page_markup scope (page_init st))
   \<and> (\<exists>(st :: (jsstring name_email, jsstring list option name_email, props option name_email)
             superForm) e scope.
         page_markup scope (page_init (st\<lparr>errors_store := e\<rparr>))
           \<noteq> page_markup scope (page_init st))
   \<and> (\<exists>(st :: (jsstring name_email, jsstring list option name_email, props option name_email)
             superForm) c scope.
         page_markup scope (page_init (st\<lparr>constraints_store := c\<rparr>))
           \<noteq> page_markup scope (page_init st))
   \<and> Form_markup (Form_init st p) =
       Form_markup (Form_init
         \<lparr>form_store = form_store st, errors_store = errors_store st,
          constraints_store = constraints_store st, message_store = message_store st\<rparr> p)
   \<and> page_markup scope (page_init st') =
       page_markup scope (page_init
         \<lparr>form_store = form_store st', errors_store = errors_store st',
          constraints_store = constraints_store st', message_store = message_store st'\<rparr>)"
proof -
  have obtained: "form_store (Form_init st p) = form_store st
   \<and> errors_store (Form_init st p) = errors_store st
   \<and> constraints_store (Form_init st p) = constraints_store st
   \<and> message_store (Form_init st p) = message_store st
   \<and> page_form (page_init st') = form_store st'
   \<and> page_errors (page_init st') = errors_store st'
   \<and> page_constraints (page_init st') = constraints_store st'"
    by (simp add: Form_init_def page_init_def)
  have only: "Form_markup (Form_init st p) =
       Form_markup (Form_init
         \<lparr>form_store = form_store st, errors_store = errors_store st,
          constraints_store = constraints_store st, message_store = message_store st\<rparr> p)
   \<and> page_markup scope (page_init st') =
       page_markup scope (page_init
         \<lparr>form_store = form_store st', errors_store = errors_store st',
          constraints_store = constraints_store st', message_store = message_store st'\<rparr>)"
    by (simp add: Form_init_def page_init_def)
  from obtained only Form_binds_form Form_binds_errors Form_binds_message
    page_binds_form page_binds_errors page_binds_constraints
  show ?thesis by blast
qed

end
